theory Spec2Isabelle
  imports Complex_Main
begin

section \<open>Response decoding of the sc-client (\<^verbatim>\<open>sc_client/client/_resonse_processor.py\<close>)\<close>

subsection \<open>Wire values\<close>

text \<open>
  The payload of a response is whatever the JSON reader produced: \<^verbatim>\<open>None\<close>, a bool, an
  int, a float, a str, a list or a dict with str keys. A dict is kept as an association
  list in insertion order, one pair for each key; a finite float is the real number it
  denotes.
\<close>

datatype json =
    JNone
  | JBool bool
  | JInt int
  | JFloat real
  | JStr string
  | JList "json list"
  | JDict "(string \<times> json) list"

text \<open>
  The exceptions the decoders can raise. The first four are Python's built-in ones.
  \<open>ProtocolViolation\<close> is the explicit error section 7 of the specification asks for;
  no path of the source raises it.
\<close>

datatype error = TypeError | IndexError | KeyError | AttributeError | ProtocolViolation

text \<open>Python's truth value of a wire value (\<^verbatim>\<open>if response_payload:\<close>).\<close>

fun truthy :: "json \<Rightarrow> bool" where
  "truthy JNone = False"
| "truthy (JBool b) = b"
| "truthy (JInt n) = (n \<noteq> 0)"
| "truthy (JFloat x) = (x \<noteq> 0)"
| "truthy (JStr s) = (s \<noteq> [])"
| "truthy (JList xs) = (xs \<noteq> [])"
| "truthy (JDict d) = (d \<noteq> [])"

text \<open>
  Iteration (\<^verbatim>\<open>for x in v\<close>): a list yields its elements, a str its characters as
  one-character strs, a dict its keys; anything else is not iterable.
\<close>

fun py_iter :: "json \<Rightarrow> error + json list" where
  "py_iter (JList xs) = Inr xs"
| "py_iter (JStr s) = Inr (map (\<lambda>c. JStr [c]) s)"
| "py_iter (JDict d) = Inr (map (\<lambda>kv. JStr (fst kv)) d)"
| "py_iter JNone = Inl TypeError"
| "py_iter (JBool b) = Inl TypeError"
| "py_iter (JInt n) = Inl TypeError"
| "py_iter (JFloat x) = Inl TypeError"

text \<open>
  Subscription with a non-negative int (\<^verbatim>\<open>v[count]\<close>): a list or str raises IndexError
  out of range, a dict (whose keys are strs) raises KeyError, anything else is not
  subscriptable.
\<close>

fun py_subscript :: "json \<Rightarrow> nat \<Rightarrow> error + json" where
  "py_subscript (JList xs) n = (if n < length xs then Inr (xs ! n) else Inl IndexError)"
| "py_subscript (JStr s) n = (if n < length s then Inr (JStr [s ! n]) else Inl IndexError)"
| "py_subscript (JDict d) n = Inl KeyError"
| "py_subscript JNone n = Inl TypeError"
| "py_subscript (JBool b) n = Inl TypeError"
| "py_subscript (JInt i) n = Inl TypeError"
| "py_subscript (JFloat x) n = Inl TypeError"

text \<open>\<^verbatim>\<open>d.get(key)\<close> on a dict: the value, or \<^verbatim>\<open>None\<close> for a missing key.\<close>

definition dict_get :: "(string \<times> json) list \<Rightarrow> string \<Rightarrow> json" where
  "dict_get d k = (case map_of d k of None \<Rightarrow> JNone | Some v \<Rightarrow> v)"

text \<open>\<^verbatim>\<open>v.get(key)\<close> on any wire value: only a dict has the method.\<close>

fun py_get :: "json \<Rightarrow> string \<Rightarrow> error + json" where
  "py_get (JDict d) k = Inr (dict_get d k)"
| "py_get JNone k = Inl AttributeError"
| "py_get (JBool b) k = Inl AttributeError"
| "py_get (JInt n) k = Inl AttributeError"
| "py_get (JFloat x) k = Inl AttributeError"
| "py_get (JStr s) k = Inl AttributeError"
| "py_get (JList xs) k = Inl AttributeError"

subsection \<open>Constants and models the decoders import\<close>

text \<open>
  Modelled from the spec: the module \<^verbatim>\<open>sc_client.constants.common\<close> is not part of the
  source at hand. The field names and type tags are the wire contract of section 6 and
  section 8 of the specification. \<open>common_TYPE\<close> stands for \<^verbatim>\<open>common.TYPE\<close>, and so
  on.
\<close>

definition common_TYPE :: string where "common_TYPE = ''type''"
definition common_VALUE :: string where "common_VALUE = ''value''"
definition common_ALIASES :: string where "common_ALIASES = ''aliases''"
definition common_ADDRS :: string where "common_ADDRS = ''addrs''"
definition common_STRING :: string where "common_STRING = ''string''"
definition common_INT :: string where "common_INT = ''int''"
definition common_BINARY :: string where "common_BINARY = ''binary''"
definition common_FLOAT :: string where "common_FLOAT = ''float''"

text \<open>
  Modelled from the spec: the class \<^verbatim>\<open>Response\<close> of \<^verbatim>\<open>sc_client.models\<close> is not part
  of the source at hand. The envelope has a boolean status flag and an optional payload;
  \<^verbatim>\<open>response.get(common.PAYLOAD)\<close> of an absent payload is \<^verbatim>\<open>None\<close>, here \<open>JNone\<close>.
\<close>

record Response =
  status :: bool
  payload :: json

text \<open>
  Modelled from the spec: the class \<^verbatim>\<open>ScAddr\<close> of \<^verbatim>\<open>sc_client.models\<close> is not part of
  the source at hand. An Element Address is an immutable value wrapping the raw
  identifier it was built from, equal by that underlying value.
\<close>

datatype ScAddr = ScAddr (addr_value: json)

subsection \<open>Create elements\<close>

text \<open>\<^verbatim>\<open>[ScAddr(addr_value) for addr_value in response.get(common.PAYLOAD)]\<close>\<close>

definition CreateElementsResponseProcessor :: "Response \<Rightarrow> error + ScAddr list" where
  "CreateElementsResponseProcessor response =
     (case py_iter (payload response) of
        Inl err \<Rightarrow> Inl err
      | Inr addr_values \<Rightarrow> Inr (map ScAddr addr_values))"

subsection \<open>Link content\<close>

text \<open>
  Modelled from the spec: the enumeration \<^verbatim>\<open>ScLinkContentType\<close> and the class
  \<^verbatim>\<open>ScLinkContent\<close> of \<^verbatim>\<open>sc_client.models\<close> are not part of the source at hand. The
  enumeration has the four members of the specification's data model; the number each
  member carries as its \<^verbatim>\<open>.value\<close> is not given anywhere, so the decoder takes it as the
  parameter \<open>kind_value\<close>. A Link Content holds the value and the number of its kind as
  they were passed to the constructor.
\<close>

datatype ScLinkContentType = KIND_STRING | KIND_INT | KIND_BINARY | KIND_FLOAT

datatype ScLinkContent = ScLinkContent (data: json) (content_type: int)

text \<open>
  \<^verbatim>\<open>str_type == common.STRING\<close> and its siblings compare a wire value with a str: only
  a str of the same characters is equal.
\<close>

definition link_content_type :: "(ScLinkContentType \<Rightarrow> int) \<Rightarrow> json \<Rightarrow> int" where
  "link_content_type kind_value str_type =
     (if str_type = JStr common_STRING then kind_value KIND_STRING
      else if str_type = JStr common_INT then kind_value KIND_INT
      else if str_type = JStr common_BINARY then kind_value KIND_BINARY
      else if str_type = JStr common_FLOAT then kind_value KIND_FLOAT
      else 0)"

definition GetLinkContentResponseProcessor ::
  "(ScLinkContentType \<Rightarrow> int) \<Rightarrow> Response \<Rightarrow> error + ScLinkContent" where
  "GetLinkContentResponseProcessor kind_value response =
     (case py_subscript (payload response) 0 of
        Inl err \<Rightarrow> Inl err
      | Inr response_payload \<Rightarrow>
          (case py_get response_payload common_TYPE of
             Inl err \<Rightarrow> Inl err
           | Inr str_type \<Rightarrow>
               (case py_get response_payload common_VALUE of
                  Inl err \<Rightarrow> Inl err
                | Inr v \<Rightarrow> Inr (ScLinkContent v (link_content_type kind_value str_type)))))"

subsection \<open>Links by content\<close>

text \<open>
  The decoder returns either the nested list it built or, for a payload that is not
  truthy, the payload itself. The nested comprehension raises at the first inner value
  that is not iterable.
\<close>

datatype links_result = AddrLists "ScAddr list list" | RawPayload json

fun addr_lists :: "json list \<Rightarrow> error + ScAddr list list" where
  "addr_lists [] = Inr []"
| "addr_lists (addr_list # rest) =
     (case py_iter addr_list of
        Inl err \<Rightarrow> Inl err
      | Inr addr_values \<Rightarrow>
          (case addr_lists rest of
             Inl err \<Rightarrow> Inl err
           | Inr result \<Rightarrow> Inr (map ScAddr addr_values # result)))"

definition GetLinksByContentResponseProcessor :: "Response \<Rightarrow> error + links_result" where
  "GetLinksByContentResponseProcessor response =
     (let response_payload = payload response in
      if truthy response_payload then
        (case py_iter response_payload of
           Inl err \<Rightarrow> Inl err
         | Inr ls \<Rightarrow>
             (case addr_lists ls of
                Inl err \<Rightarrow> Inl err
              | Inr result \<Rightarrow> Inr (AddrLists result)))
      else Inr (RawPayload response_payload))"

subsection \<open>Resolve keynodes\<close>

text \<open>
  The decoder returns either the list of addresses it built or, for a payload that is
  not truthy, the response it was given (\<^verbatim>\<open>return response\<close>).
\<close>

datatype keynodes_result = Addrs "ScAddr list" | RawResponse Response

definition ResolveKeynodesResponseProcessor :: "Response \<Rightarrow> error + keynodes_result" where
  "ResolveKeynodesResponseProcessor response =
     (let response_payload = payload response in
      if truthy response_payload then
        (case py_iter response_payload of
           Inl err \<Rightarrow> Inl err
         | Inr addr_values \<Rightarrow> Inr (Addrs (map ScAddr addr_values)))
      else Inr (RawResponse response))"

subsection \<open>Template search\<close>

text \<open>
  Modelled from the spec: the class \<^verbatim>\<open>ScTemplateResult\<close> of \<^verbatim>\<open>sc_client.models\<close> is not
  part of the source at hand. A Template Result holds the address sequence and the
  aliases mapping it was built from.
\<close>

datatype ScTemplateResult = ScTemplateResult (result_addrs: "ScAddr list") (result_aliases: json)

text \<open>The \<^verbatim>\<open>for addrs_list in all_addrs\<close> loop, with \<open>result\<close> as its accumulator.\<close>

fun template_search_loop ::
  "json list \<Rightarrow> json \<Rightarrow> ScTemplateResult list \<Rightarrow> error + ScTemplateResult list" where
  "template_search_loop [] aliases result = Inr result"
| "template_search_loop (addrs_list # rest) aliases result =
     (case py_iter addrs_list of
        Inl err \<Rightarrow> Inl err
      | Inr addr_values \<Rightarrow>
          template_search_loop rest aliases
            (result @ [ScTemplateResult (map ScAddr addr_values) aliases]))"

definition TemplateSearchResponseProcessor :: "Response \<Rightarrow> error + ScTemplateResult list" where
  "TemplateSearchResponseProcessor response =
     (if status response then
        (let response_payload = payload response in
         case py_get response_payload common_ALIASES of
           Inl err \<Rightarrow> Inl err
         | Inr aliases \<Rightarrow>
             (case py_get response_payload common_ADDRS of
                Inl err \<Rightarrow> Inl err
              | Inr all_addrs \<Rightarrow>
                  (case py_iter all_addrs of
                     Inl err \<Rightarrow> Inl err
                   | Inr ls \<Rightarrow> template_search_loop ls aliases [])))
      else Inr [])"

subsection \<open>Event subscriptions\<close>

text \<open>
  Modelled from the spec: the class \<^verbatim>\<open>ScEvent\<close> of \<^verbatim>\<open>sc_client.models\<close> is not part of
  the source at hand. A Subscription Event holds the server-assigned id, the event type
  and the callback; the latter two are only copied, so their types are left open.
\<close>

datatype ('t, 'c) ScEvent = ScEvent (event_id: json) (event_type: 't) (callback: 'c)

text \<open>
  Modelled from the spec: the module \<^verbatim>\<open>sc_client.session\<close> with \<^verbatim>\<open>set_event\<close> and
  \<^verbatim>\<open>drop_event\<close> is not part of the source at hand. The event registry is a process-wide
  map keyed by the server-assigned event id (ids compared as wire values); registering
  stores the event under its id, unregistering removes the id, both unconditionally.
  The registry is passed to the decoders and returned by them.
\<close>

type_synonym ('t, 'c) registry = "json \<rightharpoonup> ('t, 'c) ScEvent"

definition set_event :: "('t, 'c) ScEvent \<Rightarrow> ('t, 'c) registry \<Rightarrow> ('t, 'c) registry" where
  "set_event sc_event reg = reg(event_id sc_event \<mapsto> sc_event)"

definition drop_event :: "json \<Rightarrow> ('t, 'c) registry \<Rightarrow> ('t, 'c) registry" where
  "drop_event ev_id reg = reg(ev_id := None)"

text \<open>
  The \<^verbatim>\<open>for count, event in enumerate(events)\<close> loop: \<open>count\<close> is the position reached and
  \<open>result\<close> the accumulator. An exception leaves the registry as the loop has changed it
  so far.
\<close>

fun events_create_loop ::
  "json \<Rightarrow> nat \<Rightarrow> ('t, 'c) ScEvent list \<Rightarrow> ('t, 'c) registry \<Rightarrow> ('t, 'c) ScEvent list
     \<Rightarrow> (error + ('t, 'c) ScEvent list) \<times> ('t, 'c) registry" where
  "events_create_loop p count [] reg result = (Inr result, reg)"
| "events_create_loop p count (event # events) reg result =
     (case py_subscript p count of
        Inl err \<Rightarrow> (Inl err, reg)
      | Inr command_id \<Rightarrow>
          (let sc_event = ScEvent command_id (event_type event) (callback event)
           in events_create_loop p (Suc count) events (set_event sc_event reg)
                (result @ [sc_event])))"

definition EventsCreateResponseProcessor ::
  "Response \<Rightarrow> ('t, 'c) ScEvent list \<Rightarrow> ('t, 'c) registry
     \<Rightarrow> (error + ('t, 'c) ScEvent list) \<times> ('t, 'c) registry" where
  "EventsCreateResponseProcessor response events reg =
     events_create_loop (payload response) 0 events reg []"

text \<open>The \<^verbatim>\<open>for event in events\<close> loop of the destroy decoder.\<close>

fun events_destroy_loop :: "('t, 'c) ScEvent list \<Rightarrow> ('t, 'c) registry \<Rightarrow> ('t, 'c) registry" where
  "events_destroy_loop [] reg = reg"
| "events_destroy_loop (event # events) reg =
     events_destroy_loop events (drop_event (event_id event) reg)"

definition EventsDestroyResponseProcessor ::
  "Response \<Rightarrow> ('t, 'c) ScEvent list \<Rightarrow> ('t, 'c) registry \<Rightarrow> bool \<times> ('t, 'c) registry" where
  "EventsDestroyResponseProcessor response events reg =
     (status response, events_destroy_loop events reg)"

subsection \<open>Runs of the two event decoders\<close>

text \<open>The event the create loop builds for an acknowledged id and a descriptor.\<close>

definition ack_event :: "json \<Rightarrow> ('t, 'c) ScEvent \<Rightarrow> ('t, 'c) ScEvent" where
  "ack_event command_id event = ScEvent command_id (event_type event) (callback event)"

text \<open>
  What \<open>py_subscript\<close> can read from a value, by position, and the exception it raises
  beyond that.
\<close>

fun subscript_items :: "json \<Rightarrow> json list" where
  "subscript_items (JList xs) = xs"
| "subscript_items (JStr s) = map (\<lambda>c. JStr [c]) s"
| "subscript_items (JDict d) = []"
| "subscript_items JNone = []"
| "subscript_items (JBool b) = []"
| "subscript_items (JInt i) = []"
| "subscript_items (JFloat x) = []"

fun subscript_error :: "json \<Rightarrow> error" where
  "subscript_error (JList xs) = IndexError"
| "subscript_error (JStr s) = IndexError"
| "subscript_error (JDict d) = KeyError"
| "subscript_error JNone = TypeError"
| "subscript_error (JBool b) = TypeError"
| "subscript_error (JInt i) = TypeError"
| "subscript_error (JFloat x) = TypeError"

text \<open>
  A run is a sequence of decodes on the shared registry. A decode that raises keeps the
  registry as it left it.
\<close>

datatype ('t, 'c) step =
    CreateStep Response "('t, 'c) ScEvent list"
  | DestroyStep Response "('t, 'c) ScEvent list"

fun run_step :: "('t, 'c) step \<Rightarrow> ('t, 'c) registry \<Rightarrow> ('t, 'c) registry" where
  "run_step (CreateStep response events) reg =
     snd (EventsCreateResponseProcessor response events reg)"
| "run_step (DestroyStep response events) reg =
     snd (EventsDestroyResponseProcessor response events reg)"

text \<open>
  The ids a run leaves registered, told from the steps alone: a create decode adds the
  ids acknowledged at the positions that have a descriptor, a destroy decode removes
  the ids of its descriptors.
\<close>

fun live_ids :: "('t, 'c) step \<Rightarrow> json set \<Rightarrow> json set" where
  "live_ids (CreateStep response events) live =
     live \<union> set (take (length events) (subscript_items (payload response)))"
| "live_ids (DestroyStep response events) live = live - event_id ` set events"

text \<open>
  The subscriptions a run leaves registered, told from the steps alone: a create decode
  puts, for each position that has both an acknowledged id and a descriptor, in order,
  the subscription made of that id and that descriptor's event type and callback under
  that id; a destroy decode removes the ids of its descriptors and keeps every other
  subscription.
\<close>

fun subscriptions_after :: "('t, 'c) step \<Rightarrow> ('t, 'c) registry \<Rightarrow> ('t, 'c) registry" where
  "subscriptions_after (CreateStep response events) subs =
     fold (\<lambda>(command_id, event) subs.
             subs(command_id \<mapsto> ScEvent command_id (event_type event) (callback event)))
       (zip (subscript_items (payload response)) events) subs"
| "subscriptions_after (DestroyStep response events) subs =
     (\<lambda>i. if i \<in> event_id ` set events then None else subs i)"

text \<open>Every id of the registry maps to a subscription object that carries this id.\<close>

definition registry_keyed :: "('t, 'c) registry \<Rightarrow> bool" where
  "registry_keyed reg = (\<forall>i sc_event. reg i = Some sc_event \<longrightarrow> event_id sc_event = i)"

section \<open>Properties\<close>

text \<open>
  C9. For every sequence of raw numeric ids in a create-elements payload, the decoder
  returns a sequence of Element Addresses of the same length, and reading the underlying
  value of each address gives back the raw ids in their order.
\<close>

theorem create_elements_roundtrip:
  "\<exists>addrs. CreateElementsResponseProcessor \<lparr>status = s, payload = JList (map JInt ids)\<rparr> = Inr addrs
     \<and> length addrs = length ids
     \<and> map addr_value addrs = map JInt ids"
  by (simp add: CreateElementsResponseProcessor_def comp_def)

subsection \<open>The stateless decoders\<close>

lemma addr_lists_lists: "addr_lists (map JList ls) = Inr (map (map ScAddr) ls)"
  by (induction ls) simp_all

lemma template_search_loop_lists:
  "template_search_loop (map JList ls) aliases result =
     Inr (result @ map (\<lambda>l. ScTemplateResult (map ScAddr l) aliases) ls)"
  by (induction ls arbitrary: result) simp_all

text \<open>
  C1. For an envelope whose payload is an empty list, the resolve-keynodes decoder
  returns the envelope it was given, status flag and payload together, and not the
  empty payload.
\<close>

theorem resolve_keynodes_empty_payload:
  "ResolveKeynodesResponseProcessor \<lparr>status = True, payload = JList []\<rparr>
     = Inr (RawResponse \<lparr>status = True, payload = JList []\<rparr>)"
  by (simp add: ResolveKeynodesResponseProcessor_def)

text \<open>
  C4. When the first element of the payload carries a string type tag, the link-content
  decoder returns a Link Content whose kind is STRING for the tag "string", INT for
  "int", BINARY for "binary", FLOAT for "float", and 0 for any other tag, without
  raising; its value is the value field of that element as it came.
\<close>

theorem link_content_kind:
  assumes "payload response = JList (JDict element # rest)"
    and "dict_get element ''type'' = JStr tag"
  shows "GetLinkContentResponseProcessor kind_value response =
     Inr (ScLinkContent (dict_get element ''value'')
       (if tag = ''string'' then kind_value KIND_STRING
        else if tag = ''int'' then kind_value KIND_INT
        else if tag = ''binary'' then kind_value KIND_BINARY
        else if tag = ''float'' then kind_value KIND_FLOAT
        else 0))"
  using assms
  by (simp add: GetLinkContentResponseProcessor_def link_content_type_def common_TYPE_def
      common_VALUE_def common_STRING_def common_INT_def common_BINARY_def common_FLOAT_def)

theorem link_content_kind_witness:
  "GetLinkContentResponseProcessor
     (\<lambda>k. case k of KIND_STRING \<Rightarrow> 1 | KIND_INT \<Rightarrow> 2 | KIND_BINARY \<Rightarrow> 3 | KIND_FLOAT \<Rightarrow> 4)
     \<lparr>status = True, payload = JList [JDict [(''type'', JStr ''unknown_tag''), (''value'', JInt 7)]]\<rparr>
     = Inr (ScLinkContent (JInt 7) 0)
   \<and> GetLinkContentResponseProcessor
     (\<lambda>k. case k of KIND_STRING \<Rightarrow> 1 | KIND_INT \<Rightarrow> 2 | KIND_BINARY \<Rightarrow> 3 | KIND_FLOAT \<Rightarrow> 4)
     \<lparr>status = True, payload = JList [JDict [(''type'', JStr ''float''), (''value'', JStr ''x'')]]\<rparr>
     = Inr (ScLinkContent (JStr ''x'') 4)"
proof -
  let ?kv = "\<lambda>k. case k of KIND_STRING \<Rightarrow> (1::int) | KIND_INT \<Rightarrow> 2 | KIND_BINARY \<Rightarrow> 3 | KIND_FLOAT \<Rightarrow> 4"
  have "payload \<lparr>status = True, payload = JList [JDict [(''type'', JStr ''unknown_tag''), (''value'', JInt 7)]]\<rparr>
      = JList (JDict [(''type'', JStr ''unknown_tag''), (''value'', JInt 7)] # [])"
    and "dict_get [(''type'', JStr ''unknown_tag''), (''value'', JInt 7)] ''type'' = JStr ''unknown_tag''"
    by (simp_all add: dict_get_def)
  from link_content_kind [OF this, of ?kv]
  have a: "GetLinkContentResponseProcessor ?kv
     \<lparr>status = True, payload = JList [JDict [(''type'', JStr ''unknown_tag''), (''value'', JInt 7)]]\<rparr>
     = Inr (ScLinkContent (JInt 7) 0)"
    by (simp add: dict_get_def)
  have "payload \<lparr>status = True, payload = JList [JDict [(''type'', JStr ''float''), (''value'', JStr ''x'')]]\<rparr>
      = JList (JDict [(''type'', JStr ''float''), (''value'', JStr ''x'')] # [])"
    and "dict_get [(''type'', JStr ''float''), (''value'', JStr ''x'')] ''type'' = JStr ''float''"
    by (simp_all add: dict_get_def)
  from link_content_kind [OF this, of ?kv]
  have b: "GetLinkContentResponseProcessor ?kv
     \<lparr>status = True, payload = JList [JDict [(''type'', JStr ''float''), (''value'', JStr ''x'')]]\<rparr>
     = Inr (ScLinkContent (JStr ''x'') 4)"
    by (simp add: dict_get_def)
  from a b show ?thesis by blast
qed

text \<open>
  C10. Two envelopes whose first payload elements agree on the type field and on the
  value field are decoded to the same Link Content, whatever their status flags, the
  other fields of the first element and the further elements of the payload are.
\<close>

theorem link_content_noninterference:
  assumes "payload response1 = JList (JDict element1 # rest1)"
    and "payload response2 = JList (JDict element2 # rest2)"
    and "dict_get element1 ''type'' = dict_get element2 ''type''"
    and "dict_get element1 ''value'' = dict_get element2 ''value''"
  shows "GetLinkContentResponseProcessor kind_value response1
       = GetLinkContentResponseProcessor kind_value response2"
  using assms
  by (simp add: GetLinkContentResponseProcessor_def common_TYPE_def common_VALUE_def)

theorem link_content_noninterference_witness:
  "GetLinkContentResponseProcessor
     (\<lambda>k. case k of KIND_STRING \<Rightarrow> 1 | KIND_INT \<Rightarrow> 2 | KIND_BINARY \<Rightarrow> 3 | KIND_FLOAT \<Rightarrow> 4)
     \<lparr>status = True, payload = JList [JDict [(''type'', JStr ''int''), (''value'', JInt 5)]]\<rparr>
   = GetLinkContentResponseProcessor
     (\<lambda>k. case k of KIND_STRING \<Rightarrow> 1 | KIND_INT \<Rightarrow> 2 | KIND_BINARY \<Rightarrow> 3 | KIND_FLOAT \<Rightarrow> 4)
     \<lparr>status = False,
      payload = JList [JDict [(''value'', JInt 5), (''type'', JStr ''int''), (''extra'', JNone)],
                       JBool True]\<rparr>"
proof -
  have "payload \<lparr>status = True, payload = JList [JDict [(''type'', JStr ''int''), (''value'', JInt 5)]]\<rparr>
      = JList (JDict [(''type'', JStr ''int''), (''value'', JInt 5)] # [])"
    and "payload \<lparr>status = False,
      payload = JList [JDict [(''value'', JInt 5), (''type'', JStr ''int''), (''extra'', JNone)],
                       JBool True]\<rparr>
      = JList (JDict [(''value'', JInt 5), (''type'', JStr ''int''), (''extra'', JNone)]
               # [JBool True])"
    and "dict_get [(''type'', JStr ''int''), (''value'', JInt 5)] ''type''
      = dict_get [(''value'', JInt 5), (''type'', JStr ''int''), (''extra'', JNone)] ''type''"
    and "dict_get [(''type'', JStr ''int''), (''value'', JInt 5)] ''value''
      = dict_get [(''value'', JInt 5), (''type'', JStr ''int''), (''extra'', JNone)] ''value''"
    by (simp_all add: dict_get_def)
  then show ?thesis by (rule link_content_noninterference)
qed

text \<open>
  C5. With the status flag false the template-search decoder returns the empty sequence,
  whatever the payload is. With the status flag true and a payload whose addrs field is
  a sequence of sequences, it returns one Template Result per inner sequence, in order,
  each holding the wrapped addresses of that inner sequence and the one aliases field
  of the payload.
\<close>

theorem template_search_result:
  "(\<not> status response \<longrightarrow> TemplateSearchResponseProcessor response = Inr [])
   \<and> (status response \<and> payload response = JDict d
        \<and> dict_get d ''addrs'' = JList (map JList all_addrs) \<longrightarrow>
      TemplateSearchResponseProcessor response =
        Inr (map (\<lambda>addrs_list. ScTemplateResult (map ScAddr addrs_list) (dict_get d ''aliases''))
               all_addrs))"
  by (simp add: TemplateSearchResponseProcessor_def template_search_loop_lists
      common_ADDRS_def common_ALIASES_def)

theorem template_search_result_witness:
  "TemplateSearchResponseProcessor
     \<lparr>status = False, payload = JStr ''malformed''\<rparr> = Inr []
   \<and> TemplateSearchResponseProcessor
     \<lparr>status = True,
      payload = JDict [(''aliases'', JDict [(''x'', JInt 0)]),
                       (''addrs'', JList [JList [JInt 10, JInt 20], JList [JInt 30, JInt 40]])]\<rparr>
     = Inr [ScTemplateResult [ScAddr (JInt 10), ScAddr (JInt 20)] (JDict [(''x'', JInt 0)]),
            ScTemplateResult [ScAddr (JInt 30), ScAddr (JInt 40)] (JDict [(''x'', JInt 0)])]"
  using template_search_result
    [of "\<lparr>status = False, payload = JStr ''malformed''\<rparr>"]
    template_search_result
    [of "\<lparr>status = True,
      payload = JDict [(''aliases'', JDict [(''x'', JInt 0)]),
                       (''addrs'', JList [JList [JInt 10, JInt 20], JList [JInt 30, JInt 40]])]\<rparr>"
        "[(''aliases'', JDict [(''x'', JInt 0)]),
          (''addrs'', JList [JList [JInt 10, JInt 20], JList [JInt 30, JInt 40]])]"
        "[[JInt 10, JInt 20], [JInt 30, JInt 40]]"]
  by (simp add: dict_get_def)

text \<open>
  C8. For a payload that is empty or absent the links-by-content decoder returns the
  payload itself: \<^verbatim>\<open>None\<close> stays \<^verbatim>\<open>None\<close> and an empty list is that empty list. For a
  non-empty sequence of sequences it returns the sequence of sequences of Element
  Addresses of the same shape and order.
\<close>

theorem links_by_content_result:
  "(\<not> truthy (payload response) \<longrightarrow>
      GetLinksByContentResponseProcessor response = Inr (RawPayload (payload response)))
   \<and> (payload response = JList (map JList ls) \<and> ls \<noteq> [] \<longrightarrow>
      GetLinksByContentResponseProcessor response = Inr (AddrLists (map (map ScAddr) ls)))"
  by (simp add: GetLinksByContentResponseProcessor_def addr_lists_lists)


theorem links_by_content_result_witness:
  "GetLinksByContentResponseProcessor \<lparr>status = True, payload = JNone\<rparr> = Inr (RawPayload JNone)
   \<and> GetLinksByContentResponseProcessor \<lparr>status = True, payload = JList []\<rparr>
       = Inr (RawPayload (JList []))
   \<and> GetLinksByContentResponseProcessor
       \<lparr>status = True, payload = JList [JList [JInt 1, JInt 2], JList []]\<rparr>
       = Inr (AddrLists [[ScAddr (JInt 1), ScAddr (JInt 2)], []])"
  using links_by_content_result [of "\<lparr>status = True, payload = JNone\<rparr>"]
    links_by_content_result [of "\<lparr>status = True, payload = JList []\<rparr>"]
    links_by_content_result
      [of "\<lparr>status = True, payload = JList [JList [JInt 1, JInt 2], JList []]\<rparr>"
          "[[JInt 1, JInt 2], []]"]
  by simp

subsection \<open>The event decoders\<close>

lemma py_subscript_items:
  "py_subscript p n =
     (if n < length (subscript_items p) then Inr (subscript_items p ! n)
      else Inl (subscript_error p))"
  by (cases p) simp_all

lemma events_create_loop_eq:
  "events_create_loop p n events reg result =
     (if length events \<le> length (subscript_items p) - n
      then Inr (result @ map2 ack_event (drop n (subscript_items p)) events)
      else Inl (subscript_error p),
      fold set_event (map2 ack_event (drop n (subscript_items p)) events) reg)"
proof (induction events arbitrary: n reg result)
  case Nil
  then show ?case by simp
next
  case (Cons event events)
  show ?case
  proof (cases "n < length (subscript_items p)")
    case True
    then have d: "drop n (subscript_items p) = subscript_items p ! n # drop (Suc n) (subscript_items p)"
      by (simp add: Cons_nth_drop_Suc)
    from True show ?thesis
      by (auto simp: Cons.IH d ack_event_def Let_def py_subscript_items)
  next
    case False
    then show ?thesis by (simp add: py_subscript_items)
  qed
qed

lemma dom_fold_set_event:
  "dom (fold set_event es reg) = dom reg \<union> event_id ` set es"
  by (induction es arbitrary: reg) (auto simp: set_event_def)

lemma registry_keyed_set_event: "registry_keyed reg \<Longrightarrow> registry_keyed (set_event e reg)"
  by (simp add: registry_keyed_def set_event_def)

lemma registry_keyed_fold_set_event:
  "registry_keyed reg \<Longrightarrow> registry_keyed (fold set_event es reg)"
  by (induction es arbitrary: reg) (simp_all add: registry_keyed_set_event)

lemma event_id_ack_zip:
  "event_id ` set (map2 ack_event ids events) = set (take (length events) ids)"
proof (induction events arbitrary: ids)
  case Nil
  then show ?case by simp
next
  case (Cons e es)
  then show ?case by (cases ids) (auto simp: ack_event_def)
qed

lemma dom_fold_ack:
  "dom (fold set_event (map2 ack_event ids events) reg) = dom reg \<union> set (take (length events) ids)"
  unfolding dom_fold_set_event event_id_ack_zip ..

lemma events_destroy_loop_eq:
  "events_destroy_loop events reg = reg |` (- event_id ` set events)"
  by (induction events arbitrary: reg) (auto simp: drop_event_def restrict_map_def fun_eq_iff)

lemma dom_run_step: "dom (run_step st reg) = live_ids st (dom reg)"
proof (cases st)
  case (CreateStep response events)
  then show ?thesis
    by (simp add: EventsCreateResponseProcessor_def events_create_loop_eq dom_fold_ack)
next
  case (DestroyStep response events)
  then show ?thesis
    by (auto simp: EventsDestroyResponseProcessor_def events_destroy_loop_eq)
qed

lemma registry_keyed_run_step: "registry_keyed reg \<Longrightarrow> registry_keyed (run_step st reg)"
proof (cases st)
  case (CreateStep response events)
  assume "registry_keyed reg"
  with CreateStep show ?thesis
    by (simp add: EventsCreateResponseProcessor_def events_create_loop_eq
        registry_keyed_fold_set_event)
next
  case (DestroyStep response events)
  assume "registry_keyed reg"
  with DestroyStep show ?thesis
    by (auto simp: EventsDestroyResponseProcessor_def events_destroy_loop_eq
        registry_keyed_def restrict_map_def split: if_splits)
qed

lemma dom_run_steps: "dom (fold run_step steps reg) = fold live_ids steps (dom reg)"
  by (induction steps arbitrary: reg) (simp_all add: dom_run_step)

lemma registry_keyed_run_steps:
  "registry_keyed reg \<Longrightarrow> registry_keyed (fold run_step steps reg)"
  by (induction steps arbitrary: reg) (simp_all add: registry_keyed_run_step)

lemma fold_set_event_ack:
  "fold set_event (map2 ack_event ids events) reg =
     fold (\<lambda>(command_id, event) subs.
             subs(command_id \<mapsto> ScEvent command_id (event_type event) (callback event)))
       (zip ids events) reg"
  by (induction ids events arbitrary: reg rule: list_induct2')
    (simp_all add: set_event_def ack_event_def)

lemma run_step_subscriptions: "run_step st reg = subscriptions_after st reg"
proof (cases st)
  case (CreateStep response events)
  then show ?thesis
    by (simp add: EventsCreateResponseProcessor_def events_create_loop_eq fold_set_event_ack)
next
  case (DestroyStep response events)
  then show ?thesis
    by (auto simp: EventsDestroyResponseProcessor_def events_destroy_loop_eq restrict_map_def
        fun_eq_iff)
qed

lemma run_steps_subscriptions: "fold run_step steps reg = fold subscriptions_after steps reg"
  by (induction steps arbitrary: reg) (simp_all add: run_step_subscriptions)

text \<open>
  C2 (as the code has it). When the acknowledgement payload is a list with fewer ids
  than there are event descriptors, the create decoder has no length check of its own:
  it builds and registers, in order, the subscription event of every position that has
  an id, and then fails with the IndexError of the subscript at the first position
  without an id.
\<close>

theorem events_create_short_ack:
  assumes "payload response = JList ids" and "length ids < length events"
  shows "EventsCreateResponseProcessor response events reg =
     (Inl IndexError, fold set_event (map2 ack_event ids events) reg)"
  using assms by (simp add: EventsCreateResponseProcessor_def events_create_loop_eq)

theorem events_create_short_ack_witness:
  "EventsCreateResponseProcessor \<lparr>status = True, payload = JList [JInt 101]\<rparr>
      [ScEvent JNone (1::nat) ''f'', ScEvent JNone 2 ''g''] Map.empty
     = (Inl IndexError, [JInt 101 \<mapsto> ScEvent (JInt 101) 1 ''f''])"
proof -
  have p: "payload \<lparr>status = True, payload = JList [JInt 101]\<rparr> = JList [JInt 101]"
    by simp
  have l: "length [JInt 101] < length [ScEvent JNone (1::nat) ''f'', ScEvent JNone 2 ''g'']"
    by simp
  show ?thesis
    using events_create_short_ack [OF p l, of Map.empty]
    by (simp add: set_event_def ack_event_def)
qed

text \<open>
  With one acknowledged id for two descriptors the failure is not the protocol-violation
  error: it is the IndexError above.
\<close>

theorem events_create_short_ack_counterexample:
  "length [JInt 101] < length [ScEvent JNone (1::nat) ''f'', ScEvent JNone 2 ''g'']
   \<and> fst (EventsCreateResponseProcessor \<lparr>status = True, payload = JList [JInt 101]\<rparr>
          [ScEvent JNone (1::nat) ''f'', ScEvent JNone 2 ''g''] Map.empty) = Inl IndexError
   \<and> fst (EventsCreateResponseProcessor \<lparr>status = True, payload = JList [JInt 101]\<rparr>
          [ScEvent JNone (1::nat) ''f'', ScEvent JNone 2 ''g''] Map.empty) \<noteq> Inl ProtocolViolation"
  by (simp add: EventsCreateResponseProcessor_def Let_def)

text \<open>
  C3 (as the code has it). After every sequence of create and destroy decodes on an
  empty registry, each id of the registry maps to a subscription object carrying that
  id, and the subscription of an id (the acknowledged id with the event type and
  callback of the descriptor at its position, as last registered) is in the registry
  exactly from the moment a create decode registers it, position by position and so
  also in a decode that then fails at a later position, until a destroy decode runs
  for that id.
\<close>

theorem registry_lifecycle:
  "fold run_step steps Map.empty = fold subscriptions_after steps Map.empty
   \<and> registry_keyed (fold run_step steps Map.empty)
   \<and> dom (fold run_step steps Map.empty) = fold live_ids steps {}"
  using run_steps_subscriptions[of steps Map.empty]
    registry_keyed_run_steps[of Map.empty steps] dom_run_steps[of steps Map.empty]
  by (simp add: registry_keyed_def)

theorem registry_lifecycle_witness:
  "fold run_step
     [CreateStep \<lparr>status = True, payload = JList [JInt 101, JInt 102]\<rparr>
        [ScEvent JNone (1::nat) ''f'', ScEvent JNone 2 ''g''],
      CreateStep \<lparr>status = True, payload = JList [JInt 103]\<rparr>
        [ScEvent JNone 3 ''h'', ScEvent JNone 4 ''k''],
      DestroyStep \<lparr>status = False, payload = JNone\<rparr> [ScEvent (JInt 101) 1 ''f'']]
     Map.empty
     = [JInt 102 \<mapsto> ScEvent (JInt 102) 2 ''g'', JInt 103 \<mapsto> ScEvent (JInt 103) 3 ''h'']
   \<and> dom (fold run_step
     [CreateStep \<lparr>status = True, payload = JList [JInt 101, JInt 102]\<rparr>
        [ScEvent JNone (1::nat) ''f'', ScEvent JNone 2 ''g''],
      CreateStep \<lparr>status = True, payload = JList [JInt 103]\<rparr>
        [ScEvent JNone 3 ''h'', ScEvent JNone 4 ''k''],
      DestroyStep \<lparr>status = False, payload = JNone\<rparr> [ScEvent (JInt 101) 1 ''f'']]
     Map.empty) = {JInt 102, JInt 103}"
proof -
  let ?steps = "[CreateStep \<lparr>status = True, payload = JList [JInt 101, JInt 102]\<rparr>
        [ScEvent JNone (1::nat) ''f'', ScEvent JNone 2 ''g''],
      CreateStep \<lparr>status = True, payload = JList [JInt 103]\<rparr>
        [ScEvent JNone 3 ''h'', ScEvent JNone 4 ''k''],
      DestroyStep \<lparr>status = False, payload = JNone\<rparr> [ScEvent (JInt 101) 1 ''f'']]"
  have run: "fold run_step ?steps Map.empty = fold subscriptions_after ?steps Map.empty"
    and live: "dom (fold run_step ?steps Map.empty) = fold live_ids ?steps {}"
    using registry_lifecycle [of ?steps] by blast+
  have "fold subscriptions_after ?steps Map.empty
      = [JInt 102 \<mapsto> ScEvent (JInt 102) (2::nat) ''g'', JInt 103 \<mapsto> ScEvent (JInt 103) 3 ''h'']"
    by (auto simp: fun_eq_iff)
  moreover have "fold live_ids ?steps {} = {JInt 102, JInt 103}"
    by auto
  ultimately show ?thesis using run live by simp
qed

text \<open>
  A create decode with one acknowledged id for two descriptors raises and does not
  return, and the subscription for id 101 is in the registry all the same.
\<close>

theorem registry_lifecycle_counterexample:
  "fst (EventsCreateResponseProcessor \<lparr>status = True, payload = JList [JInt 101]\<rparr>
          [ScEvent JNone (1::nat) ''f'', ScEvent JNone 2 ''g''] Map.empty) = Inl IndexError
   \<and> snd (EventsCreateResponseProcessor \<lparr>status = True, payload = JList [JInt 101]\<rparr>
          [ScEvent JNone (1::nat) ''f'', ScEvent JNone 2 ''g''] Map.empty) (JInt 101)
       = Some (ScEvent (JInt 101) 1 ''f'')"
  by (simp add: EventsCreateResponseProcessor_def set_event_def Let_def)

text \<open>
  C7. With N event descriptors and an acknowledgement list of at least N ids, the create
  decoder returns N Subscription Events in submission order, the one at position i
  carrying the i-th acknowledged id and the i-th descriptor's event type and callback,
  and every returned id is in the event registry afterwards.
\<close>

theorem events_create_aligned:
  assumes "payload response = JList ids" and "length events \<le> length ids"
  shows "\<exists>result reg'.
     EventsCreateResponseProcessor response events reg = (Inr result, reg')
     \<and> length result = length events
     \<and> (\<forall>i < length events.
          result ! i = ScEvent (ids ! i) (event_type (events ! i)) (callback (events ! i)))
     \<and> (\<forall>sc_event \<in> set result. event_id sc_event \<in> dom reg')"
proof -
  let ?result = "map2 ack_event ids events"
  let ?reg' = "fold set_event ?result reg"
  have run: "EventsCreateResponseProcessor response events reg = (Inr ?result, ?reg')"
    using assms by (simp add: EventsCreateResponseProcessor_def events_create_loop_eq)
  have len: "length ?result = length events"
    using assms(2) by simp
  have nth: "\<forall>i < length events.
      ?result ! i = ScEvent (ids ! i) (event_type (events ! i)) (callback (events ! i))"
    using assms(2) by (simp add: ack_event_def)
  have reg: "\<forall>sc_event \<in> set ?result. event_id sc_event \<in> dom ?reg'"
    unfolding dom_fold_set_event by blast
  from run len nth reg show ?thesis by blast
qed

theorem events_create_aligned_witness:
  "EventsCreateResponseProcessor \<lparr>status = True, payload = JList [JInt 101, JInt 102]\<rparr>
      [ScEvent JNone (1::nat) ''f'', ScEvent JNone 2 ''g''] Map.empty
    = (Inr [ScEvent (JInt 101) 1 ''f'', ScEvent (JInt 102) 2 ''g''],
       [JInt 101 \<mapsto> ScEvent (JInt 101) 1 ''f'', JInt 102 \<mapsto> ScEvent (JInt 102) 2 ''g''])"
proof -
  have p: "payload \<lparr>status = True, payload = JList [JInt 101, JInt 102]\<rparr>
      = JList [JInt 101, JInt 102]"
    by simp
  have l: "length [ScEvent JNone (1::nat) ''f'', ScEvent JNone 2 ''g'']
      \<le> length [JInt 101, JInt 102]"
    by simp
  from events_create_aligned [OF p l, of Map.empty]
  obtain result reg' where
    run: "EventsCreateResponseProcessor \<lparr>status = True, payload = JList [JInt 101, JInt 102]\<rparr>
        [ScEvent JNone (1::nat) ''f'', ScEvent JNone 2 ''g''] Map.empty = (Inr result, reg')"
    by blast
  then show ?thesis
    by (simp add: EventsCreateResponseProcessor_def set_event_def Let_def)
qed

text \<open>
  C6. The destroy decoder returns the status flag of the envelope, whatever it says, and
  leaves the event registry without the ids of the event descriptors of the request
  context and with every other subscription as it was.
\<close>

theorem events_destroy_unconditional:
  "EventsDestroyResponseProcessor response events reg
     = (status response, reg |` (- event_id ` set events))
   \<and> (\<forall>event \<in> set events.
         snd (EventsDestroyResponseProcessor response events reg) (event_id event) = None)"
  by (simp add: EventsDestroyResponseProcessor_def events_destroy_loop_eq)

theorem events_destroy_unconditional_witness:
  "EventsDestroyResponseProcessor \<lparr>status = False, payload = JNone\<rparr>
     [ScEvent (JInt 101) (1::nat) ''f'', ScEvent (JInt 102) 2 ''g'']
     [JInt 101 \<mapsto> ScEvent (JInt 101) 1 ''f'', JInt 102 \<mapsto> ScEvent (JInt 102) 2 ''g'',
      JInt 103 \<mapsto> ScEvent (JInt 103) 3 ''h'']
   = (False, [JInt 103 \<mapsto> ScEvent (JInt 103) 3 ''h''])"
proof -
  have "[JInt 101 \<mapsto> ScEvent (JInt 101) (1::nat) ''f'', JInt 102 \<mapsto> ScEvent (JInt 102) 2 ''g'',
      JInt 103 \<mapsto> ScEvent (JInt 103) 3 ''h'']
        |` (- event_id ` set [ScEvent (JInt 101) (1::nat) ''f'', ScEvent (JInt 102) 2 ''g''])
      = [JInt 103 \<mapsto> ScEvent (JInt 103) 3 ''h'']"
    by (auto simp: restrict_map_def fun_eq_iff)
  with events_destroy_unconditional
    [of "\<lparr>status = False, payload = JNone\<rparr>"
        "[ScEvent (JInt 101) (1::nat) ''f'', ScEvent (JInt 102) 2 ''g'']"
        "[JInt 101 \<mapsto> ScEvent (JInt 101) 1 ''f'', JInt 102 \<mapsto> ScEvent (JInt 102) 2 ''g'',
          JInt 103 \<mapsto> ScEvent (JInt 103) 3 ''h'']"]
  show ?thesis by simp
qed

end
